theory Spec2Isabelle
  imports Main "HOL-Library.FSet"
begin

section \<open>MT-Bench evaluators (src/instructlab/eval/mt_bench.py)\<close>

subsection \<open>Python values and exceptions\<close>

text \<open>
  The parameter \<open>max_workers\<close> is annotated \<open>int | str\<close>, but the constructor tests its
  type at run time, so the model keeps the dynamic types a caller can pass: \<open>None\<close>, a
  \<open>bool\<close>, an \<open>int\<close> (unbounded) or a \<open>str\<close>.
\<close>

datatype pyval = PyNone | PyBool bool | PyInt int | PyStr string

text \<open>\<open>v == "..."\<close> against a string literal: only an equal \<open>str\<close> compares equal.\<close>

fun py_eq_str :: "pyval \<Rightarrow> string \<Rightarrow> bool" where
  "py_eq_str (PyStr s) t = (s = t)"
| "py_eq_str v t = False"

text \<open>
  \<open>isinstance(v, int)\<close> together with the integer value of \<open>v\<close>: \<open>bool\<close> is a subclass of
  \<open>int\<close> (\<open>True\<close> is 1, \<open>False\<close> is 0); \<open>None\<close> and \<open>str\<close> are not instances of \<open>int\<close>.
\<close>

fun as_int :: "pyval \<Rightarrow> int option" where
  "as_int (PyInt n) = Some n"
| "as_int (PyBool b) = Some (if b then 1 else 0)"
| "as_int v = None"

text \<open>
  \<open>InvalidMaxWorkersError\<close> carries the rejected value. \<open>ValueError\<close> is what unpacking a
  tuple of the wrong length raises. \<open>CollaboratorError\<close> stands for whatever a collaborator
  raises; the evaluators catch nothing.
\<close>

datatype exn = InvalidMaxWorkersError pyval | ValueError | CollaboratorError string

subsection \<open>The host's CPU probe\<close>

text \<open>
  \<open>os.sched_getaffinity(0)\<close> is the set of CPUs the process may run on; where the platform
  has no such attribute (\<open>AttributeError\<close>, here \<open>None\<close>) the constructor falls back to
  \<open>multiprocessing.cpu_count()\<close>.
\<close>

record host =
  sched_getaffinity :: "nat fset option"
  cpu_count :: nat

definition usable_cpu_count :: "host \<Rightarrow> int" where
  "usable_cpu_count h =
     (case sched_getaffinity h of
        Some cpus \<Rightarrow> int (fcard cpus)
      | None \<Rightarrow> int (cpu_count h))"

subsection \<open>Construction\<close>

record evaluator =
  model_name :: string
  judge_model_name :: string
  output_dir :: string
  serving_gpus :: "int option"
  merge_system_user_message :: bool
  max_workers :: pyval

record branch_evaluator = evaluator +
  taxonomy_git_repo_path :: string
  branch :: string

definition default_output_dir :: string where
  "default_output_dir = ''eval_output''"

definition default_max_workers :: pyval where
  "default_max_workers = PyStr ''auto''"

text \<open>
  \<open>AbstractMTBenchEvaluator.__init__\<close>. The five plain fields are stored first; the value
  of \<open>max_workers\<close> is then derived (the \<open>"auto"\<close> branch), stored as given (an \<open>int\<close>
  instance above zero) or rejected. The \<open>logger.debug\<close> calls only write log records and
  are left out.
\<close>

definition AbstractMTBenchEvaluator_init ::
  "host \<Rightarrow> string \<Rightarrow> string \<Rightarrow> string \<Rightarrow> pyval \<Rightarrow> int option \<Rightarrow> bool \<Rightarrow> exn + evaluator"
where
  "AbstractMTBenchEvaluator_init h mn jmn od mw sg merge =
     (let self = (\<lambda>w. \<lparr>model_name = mn, judge_model_name = jmn, output_dir = od,
                        serving_gpus = sg, merge_system_user_message = merge,
                        max_workers = w\<rparr>)
      in if py_eq_str mw ''auto'' then
           (let c = usable_cpu_count h
            in case sg of
                 Some g \<Rightarrow> Inr (self (PyInt (min (max g 1 * 10) c)))
               | None \<Rightarrow> Inr (self (PyInt (c div 2))))
         else if (case as_int mw of Some n \<Rightarrow> 0 < n | None \<Rightarrow> False) then
           Inr (self mw)
         else Inl (InvalidMaxWorkersError mw))"

text \<open>\<open>MTBenchEvaluator\<close> defines no constructor of its own: it inherits the base one.\<close>

definition MTBenchEvaluator_init ::
  "host \<Rightarrow> string \<Rightarrow> string \<Rightarrow> string \<Rightarrow> pyval \<Rightarrow> int option \<Rightarrow> bool \<Rightarrow> exn + evaluator"
where
  "MTBenchEvaluator_init = AbstractMTBenchEvaluator_init"

text \<open>
  \<open>MTBenchBranchEvaluator.__init__\<close>: the base constructor runs first (and may raise), then
  the two branch fields are stored.
\<close>

definition MTBenchBranchEvaluator_init ::
  "host \<Rightarrow> string \<Rightarrow> string \<Rightarrow> string \<Rightarrow> string \<Rightarrow> string \<Rightarrow> pyval \<Rightarrow> int option \<Rightarrow> bool
     \<Rightarrow> exn + branch_evaluator"
where
  "MTBenchBranchEvaluator_init h mn jmn repo br od mw sg merge =
     (case AbstractMTBenchEvaluator_init h mn jmn od mw sg merge of
        Inl e \<Rightarrow> Inl e
      | Inr self \<Rightarrow>
          Inr (evaluator.extend self (branch_evaluator.fields repo br)))"

subsection \<open>The collaborators\<close>

text \<open>
  The evaluators call three functions of other modules: \<open>mt_bench_answers.generate_answers\<close>,
  \<open>mt_bench_branch_generator.generate\<close> and \<open>mt_bench_judgment.generate_judgment\<close>. Each call
  is recorded with the arguments it binds; a keyword the caller does not pass is \<open>None\<close>
  (the callee's default applies).
\<close>

record answers_args =
  ga_model_name :: string
  ga_server_url :: string
  ga_branch :: "string option"
  ga_output_dir :: string
  ga_data_dir :: "string option"
  ga_max_workers :: pyval
  ga_bench_name :: "string option"

record branch_args =
  bg_judge_model_name :: string
  bg_branch :: string
  bg_taxonomy_git_repo_path :: string
  bg_output_dir :: string

record judgment_args =
  gj_model_name :: string
  gj_judge_model_name :: string
  gj_server_url :: string
  gj_branch :: "string option"
  gj_max_workers :: pyval
  gj_output_dir :: string
  gj_data_dir :: "string option"
  gj_bench_name :: "string option"
  gj_merge_system_user_message :: bool

datatype call =
    Generate branch_args
  | Generate_answers answers_args
  | Generate_judgment judgment_args

datatype event = Called call | Returned call | Raised call exn

text \<open>
  The collaborators are parameters of the model. Each one reads and writes the world
  outside the evaluator (files under \<open>output_dir\<close>, the model servers), of type \<open>'w\<close>, and
  either returns or raises. They are handed strings, numbers and flags, never the
  evaluator object. \<open>generate_judgment\<close> returns a tuple, modelled as the list of its
  components (of type \<open>'v\<close>).
\<close>

record ('w, 'v) collaborators =
  generate_answers :: "answers_args \<Rightarrow> 'w \<Rightarrow> (exn + unit) \<times> 'w"
  generate :: "branch_args \<Rightarrow> 'w \<Rightarrow> (exn + unit) \<times> 'w"
  generate_judgment :: "judgment_args \<Rightarrow> 'w \<Rightarrow> (exn + 'v list) \<times> 'w"

text \<open>
  The state a method runs in: the evaluator object \<open>this\<close> (Python's \<open>self\<close>), the outside
  world, and the sequence of collaborator calls made so far with how each ended.
\<close>

record ('o, 'w) pstate =
  this :: 'o
  world :: 'w
  trace :: "event list"

text \<open>A blocking call of a collaborator: the call is entered, then it returns or raises.\<close>

definition invoke ::
  "call \<Rightarrow> ('w \<Rightarrow> (exn + 'r) \<times> 'w) \<Rightarrow> ('o, 'w) pstate \<Rightarrow> (exn + 'r) \<times> ('o, 'w) pstate"
where
  "invoke c f st =
     (case f (world st) of
        (Inl e, w) \<Rightarrow> (Inl e, st\<lparr>world := w, trace := trace st @ [Called c, Raised c e]\<rparr>)
      | (Inr r, w) \<Rightarrow> (Inr r, st\<lparr>world := w, trace := trace st @ [Called c, Returned c]\<rparr>))"

subsection \<open>MTBenchEvaluator\<close>

definition MTBenchEvaluator_gen_answers ::
  "('w, 'v) collaborators \<Rightarrow> string \<Rightarrow> (evaluator, 'w) pstate
     \<Rightarrow> (exn + unit) \<times> (evaluator, 'w) pstate"
where
  "MTBenchEvaluator_gen_answers cs server_url st =
     (let a = \<lparr>ga_model_name = model_name (this st),
                ga_server_url = server_url,
                ga_branch = None,
                ga_output_dir = output_dir (this st),
                ga_data_dir = None,
                ga_max_workers = max_workers (this st),
                ga_bench_name = None\<rparr>
      in invoke (Generate_answers a) (generate_answers cs a) st)"

definition MTBenchEvaluator_judge_answers ::
  "('w, 'v) collaborators \<Rightarrow> string \<Rightarrow> (evaluator, 'w) pstate
     \<Rightarrow> (exn + 'v list) \<times> (evaluator, 'w) pstate"
where
  "MTBenchEvaluator_judge_answers cs server_url st =
     (let j = \<lparr>gj_model_name = model_name (this st),
                gj_judge_model_name = judge_model_name (this st),
                gj_server_url = server_url,
                gj_branch = None,
                gj_max_workers = max_workers (this st),
                gj_output_dir = output_dir (this st),
                gj_data_dir = None,
                gj_bench_name = None,
                gj_merge_system_user_message = merge_system_user_message (this st)\<rparr>
      in invoke (Generate_judgment j) (generate_judgment cs j) st)"

subsection \<open>MTBenchBranchEvaluator\<close>

text \<open>
  \<open>gen_answers\<close> makes two calls in sequence; an exception of the first ends the method.
\<close>

definition MTBenchBranchEvaluator_gen_answers ::
  "('w, 'v) collaborators \<Rightarrow> string \<Rightarrow> (branch_evaluator, 'w) pstate
     \<Rightarrow> (exn + unit) \<times> (branch_evaluator, 'w) pstate"
where
  "MTBenchBranchEvaluator_gen_answers cs server_url st =
     (let b = \<lparr>bg_judge_model_name = judge_model_name (this st),
                bg_branch = branch (this st),
                bg_taxonomy_git_repo_path = taxonomy_git_repo_path (this st),
                bg_output_dir = output_dir (this st)\<rparr>
      in case invoke (Generate b) (generate cs b) st of
           (Inl e, st1) \<Rightarrow> (Inl e, st1)
         | (Inr u, st1) \<Rightarrow>
             (let a = \<lparr>ga_model_name = model_name (this st1),
                        ga_server_url = server_url,
                        ga_branch = Some (branch (this st1)),
                        ga_output_dir = output_dir (this st1),
                        ga_data_dir = Some (output_dir (this st1)),
                        ga_max_workers = max_workers (this st1),
                        ga_bench_name = Some ''mt_bench_branch''\<rparr>
              in invoke (Generate_answers a) (generate_answers cs a) st1))"

text \<open>
  \<open>judge_answers\<close> unpacks the collaborator's result into four names and returns the second
  and the fourth; unpacking a tuple of any other length raises \<open>ValueError\<close>.
\<close>

definition MTBenchBranchEvaluator_judge_answers ::
  "('w, 'v) collaborators \<Rightarrow> string \<Rightarrow> (branch_evaluator, 'w) pstate
     \<Rightarrow> (exn + 'v list) \<times> (branch_evaluator, 'w) pstate"
where
  "MTBenchBranchEvaluator_judge_answers cs server_url st =
     (let j = \<lparr>gj_model_name = model_name (this st),
                gj_judge_model_name = judge_model_name (this st),
                gj_server_url = server_url,
                gj_branch = Some (branch (this st)),
                gj_max_workers = max_workers (this st),
                gj_output_dir = output_dir (this st),
                gj_data_dir = Some (output_dir (this st)),
                gj_bench_name = Some ''mt_bench_branch'',
                gj_merge_system_user_message = merge_system_user_message (this st)\<rparr>
      in case invoke (Generate_judgment j) (generate_judgment cs j) st of
           (Inl e, st1) \<Rightarrow> (Inl e, st1)
         | (Inr r, st1) \<Rightarrow>
             (case r of
                [overall_score, qa_pairs, turn_scores, error_rate] \<Rightarrow>
                  (Inr [qa_pairs, error_rate], st1)
              | _ \<Rightarrow> (Inl ValueError, st1)))"

section \<open>Example inputs\<close>

text \<open>
  Stub collaborators for the examples. Their world is the list of the collaborators that
  ran, in order; the judgment stub returns the four components the judgment module's
  interface lists.
\<close>

definition stub_collaborators :: "(string list, string) collaborators" where
  "stub_collaborators =
     \<lparr>generate_answers = (\<lambda>a w. (Inr (), w @ [''generate_answers''])),
      generate = (\<lambda>b w. (Inr (), w @ [''generate''])),
      generate_judgment = (\<lambda>j w.
        (Inr [''overall_score'', ''qa_pairs'', ''turn_scores'', ''error_rate''],
         w @ [''generate_judgment'']))\<rparr>"

definition standard_state :: "(evaluator, string list) pstate" where
  "standard_state =
     \<lparr>this = \<lparr>model_name = ''model'', judge_model_name = ''judge'',
              output_dir = ''eval_output'', serving_gpus = None,
              merge_system_user_message = False, max_workers = PyInt 4\<rparr>,
      world = [], trace = []\<rparr>"

definition branch_state :: "(branch_evaluator, string list) pstate" where
  "branch_state =
     \<lparr>this = \<lparr>model_name = ''model'', judge_model_name = ''judge'',
              output_dir = ''eval_output'', serving_gpus = None,
              merge_system_user_message = False, max_workers = PyInt 4,
              taxonomy_git_repo_path = ''taxonomy'', branch = ''main''\<rparr>,
      world = [], trace = []\<rparr>"

definition host_cores :: "nat \<Rightarrow> host" where
  "host_cores n = \<lparr>sched_getaffinity = None, cpu_count = n\<rparr>"

definition host_pinned_to_one_core :: host where
  "host_pinned_to_one_core = \<lparr>sched_getaffinity = Some {|0|}, cpu_count = 8\<rparr>"

section \<open>Construction: the worker budget\<close>

subsection \<open>The CPU probe\<close>

lemma usable_cpu_count_host_cores: "usable_cpu_count (host_cores n) = int n"
  by (simp add: usable_cpu_count_def host_cores_def)

lemma usable_cpu_count_pinned: "usable_cpu_count host_pinned_to_one_core = 1"
  by (simp add: usable_cpu_count_def host_pinned_to_one_core_def fcard_finsert_if fcard_fempty)

lemma usable_cpu_count_nonneg: "0 \<le> usable_cpu_count h"
  by (simp add: usable_cpu_count_def split: option.split)

subsection \<open>The three outcomes of the base constructor\<close>

lemma init_auto_gpus:
  "AbstractMTBenchEvaluator_init h mn jmn od (PyStr ''auto'') (Some g) merge =
     Inr \<lparr>model_name = mn, judge_model_name = jmn, output_dir = od,
          serving_gpus = Some g, merge_system_user_message = merge,
          max_workers = PyInt (min (max g 1 * 10) (usable_cpu_count h))\<rparr>"
  by (simp add: AbstractMTBenchEvaluator_init_def)

lemma init_auto_no_gpus:
  "AbstractMTBenchEvaluator_init h mn jmn od (PyStr ''auto'') None merge =
     Inr \<lparr>model_name = mn, judge_model_name = jmn, output_dir = od,
          serving_gpus = None, merge_system_user_message = merge,
          max_workers = PyInt (usable_cpu_count h div 2)\<rparr>"
  by (simp add: AbstractMTBenchEvaluator_init_def)

lemma init_explicit:
  assumes "\<not> py_eq_str mw ''auto''"
  shows "AbstractMTBenchEvaluator_init h mn jmn od mw sg merge =
     (if (case as_int mw of Some n \<Rightarrow> 0 < n | None \<Rightarrow> False)
      then Inr \<lparr>model_name = mn, judge_model_name = jmn, output_dir = od,
                serving_gpus = sg, merge_system_user_message = merge,
                max_workers = mw\<rparr>
      else Inl (InvalidMaxWorkersError mw))"
  using assms by (simp add: AbstractMTBenchEvaluator_init_def)

lemma py_eq_str_iff: "py_eq_str v t \<longleftrightarrow> v = PyStr t"
  by (cases v) auto

lemma accepted_int_iff:
  "(case as_int mw of Some n \<Rightarrow> 0 < n | None \<Rightarrow> False) \<longleftrightarrow>
     mw = PyBool True \<or> (\<exists>n. 0 < n \<and> mw = PyInt n)"
  by (cases mw) auto

text \<open>The derived constructor succeeds exactly when the base one does, with the same budget.\<close>

lemma branch_init_Inr_iff:
  "(\<exists>self. MTBenchBranchEvaluator_init h mn jmn repo br od mw sg merge = Inr self \<and>
            max_workers self = w) \<longleftrightarrow>
   (\<exists>self. AbstractMTBenchEvaluator_init h mn jmn od mw sg merge = Inr self \<and>
            max_workers self = w)"
  by (cases "AbstractMTBenchEvaluator_init h mn jmn od mw sg merge")
     (auto simp: MTBenchBranchEvaluator_init_def evaluator.defs)

lemma branch_init_Inl_iff:
  "MTBenchBranchEvaluator_init h mn jmn repo br od mw sg merge = Inl e \<longleftrightarrow>
   AbstractMTBenchEvaluator_init h mn jmn od mw sg merge = Inl e"
  by (cases "AbstractMTBenchEvaluator_init h mn jmn od mw sg merge")
     (auto simp: MTBenchBranchEvaluator_init_def)

subsection \<open>Claims about construction\<close>

text \<open>
  C1. The claim: whenever a construction completes, the stored \<open>max_workers\<close> is a positive
  integer, never zero. The code stores zero on the \<open>"auto"\<close> path without a GPU hint when
  the process may use a single core: half of one, rounded down. The explicit path of the
  same constructor rejects zero, and the GPU path keeps the hint at one or more; the
  halving path has no such guard. The theorem evaluates the constructor there.
\<close>

theorem auto_budget_is_zero_on_one_core:
  "MTBenchEvaluator_init host_pinned_to_one_core ''model'' ''judge'' default_output_dir
     default_max_workers None False =
   Inr \<lparr>model_name = ''model'', judge_model_name = ''judge'', output_dir = ''eval_output'',
        serving_gpus = None, merge_system_user_message = False, max_workers = PyInt 0\<rparr>"
  by (simp add: MTBenchEvaluator_init_def default_max_workers_def default_output_dir_def
      init_auto_no_gpus usable_cpu_count_pinned)

text \<open>
  C3. With \<open>max_workers = "auto"\<close> and usable CPU count \<open>c\<close>, both constructors store
  \<open>min(max(g, 1) * 10, c)\<close> when \<open>serving_gpus = g\<close> is given (so \<open>min(10, c)\<close> for \<open>g = 0\<close>), and
  \<open>c // 2\<close> when it is absent.
\<close>

theorem auto_budget:
  fixes h :: host and g :: int
  defines "c \<equiv> usable_cpu_count h"
  shows
    "(\<exists>self. MTBenchEvaluator_init h mn jmn od (PyStr ''auto'') (Some g) merge = Inr self \<and>
             max_workers self = PyInt (min (max g 1 * 10) c)) \<and>
     (\<exists>self. MTBenchEvaluator_init h mn jmn od (PyStr ''auto'') (Some 0) merge = Inr self \<and>
             max_workers self = PyInt (min 10 c)) \<and>
     (\<exists>self. MTBenchEvaluator_init h mn jmn od (PyStr ''auto'') None merge = Inr self \<and>
             max_workers self = PyInt (c div 2)) \<and>
     (\<exists>self. MTBenchBranchEvaluator_init h mn jmn repo br od (PyStr ''auto'') (Some g) merge
               = Inr self \<and>
             max_workers self = PyInt (min (max g 1 * 10) c)) \<and>
     (\<exists>self. MTBenchBranchEvaluator_init h mn jmn repo br od (PyStr ''auto'') (Some 0) merge
               = Inr self \<and>
             max_workers self = PyInt (min 10 c)) \<and>
     (\<exists>self. MTBenchBranchEvaluator_init h mn jmn repo br od (PyStr ''auto'') None merge
               = Inr self \<and>
             max_workers self = PyInt (c div 2))"
  unfolding branch_init_Inr_iff MTBenchEvaluator_init_def c_def
  by (simp add: init_auto_gpus init_auto_no_gpus)

theorem auto_budget_witness:
  "(\<exists>self. MTBenchEvaluator_init (host_cores 8) ''m'' ''j'' ''out'' (PyStr ''auto'') (Some 2) False
            = Inr self \<and> max_workers self = PyInt 8) \<and>
   (\<exists>self. MTBenchEvaluator_init (host_cores 8) ''m'' ''j'' ''out'' (PyStr ''auto'') None False
            = Inr self \<and> max_workers self = PyInt 4)"
  using auto_budget [of "host_cores 8" "''m''" "''j''" "''out''" 2 False]
  by (simp add: usable_cpu_count_host_cores)

text \<open>
  C4. An explicit positive integer \<open>n\<close> is stored as it is, whatever \<open>serving_gpus\<close> and the
  host are.
\<close>

theorem explicit_budget:
  assumes "0 < n"
  shows
    "(\<exists>self. MTBenchEvaluator_init h mn jmn od (PyInt n) sg merge = Inr self \<and>
             max_workers self = PyInt n) \<and>
     (\<exists>self. MTBenchBranchEvaluator_init h mn jmn repo br od (PyInt n) sg merge = Inr self \<and>
             max_workers self = PyInt n)"
  unfolding branch_init_Inr_iff MTBenchEvaluator_init_def
  using assms by (simp add: init_explicit)

theorem explicit_budget_witness:
  "(0::int) < 4 \<and>
   (\<exists>self. MTBenchEvaluator_init (host_cores 2) ''m'' ''j'' ''out'' (PyInt 4) (Some 3) True
            = Inr self \<and> max_workers self = PyInt 4) \<and>
   (\<exists>self. MTBenchBranchEvaluator_init (host_cores 2) ''m'' ''j'' ''repo'' ''main'' ''out''
              (PyInt 4) None True = Inr self \<and> max_workers self = PyInt 4)"
  using explicit_budget [of 4 "host_cores 2" "''m''" "''j''" "''out''" "Some 3" True]
    explicit_budget [of 4 "host_cores 2" "''m''" "''j''" "''out''" None True "''repo''" "''main''"]
  by simp

text \<open>
  C5. Both constructors raise exactly when \<open>max_workers\<close> is neither \<open>"auto"\<close> nor a positive
  integer (an \<open>int\<close> above zero, or \<open>True\<close>, which is the integer 1), and what they raise is
  \<open>InvalidMaxWorkersError\<close> carrying the value that was passed.
\<close>

theorem invalid_max_workers:
  "(MTBenchEvaluator_init h mn jmn od mw sg merge = Inl e \<longleftrightarrow>
      e = InvalidMaxWorkersError mw \<and> mw \<noteq> PyStr ''auto'' \<and> mw \<noteq> PyBool True \<and>
      \<not> (\<exists>n. 0 < n \<and> mw = PyInt n)) \<and>
   (MTBenchBranchEvaluator_init h mn jmn repo br od mw sg merge = Inl e \<longleftrightarrow>
      e = InvalidMaxWorkersError mw \<and> mw \<noteq> PyStr ''auto'' \<and> mw \<noteq> PyBool True \<and>
      \<not> (\<exists>n. 0 < n \<and> mw = PyInt n))"
proof -
  have base: "AbstractMTBenchEvaluator_init h mn jmn od mw sg merge = Inl e \<longleftrightarrow>
      e = InvalidMaxWorkersError mw \<and> mw \<noteq> PyStr ''auto'' \<and> mw \<noteq> PyBool True \<and>
      \<not> (\<exists>n. 0 < n \<and> mw = PyInt n)"
  proof (cases "py_eq_str mw ''auto''")
    case True
    then have "mw = PyStr ''auto''" by (simp add: py_eq_str_iff)
    then show ?thesis
      by (cases sg) (simp_all add: init_auto_gpus init_auto_no_gpus)
  next
    case False
    then have "mw \<noteq> PyStr ''auto''" by (simp add: py_eq_str_iff)
    with False show ?thesis
      by (auto simp: init_explicit accepted_int_iff)
  qed
  show ?thesis
    unfolding branch_init_Inl_iff MTBenchEvaluator_init_def using base by simp
qed

theorem invalid_max_workers_witness:
  "MTBenchEvaluator_init (host_cores 8) ''m'' ''j'' ''out'' (PyInt 0) None False
     = Inl (InvalidMaxWorkersError (PyInt 0)) \<and>
   MTBenchEvaluator_init (host_cores 8) ''m'' ''j'' ''out'' (PyInt (- 1)) (Some 1) False
     = Inl (InvalidMaxWorkersError (PyInt (- 1))) \<and>
   MTBenchEvaluator_init (host_cores 8) ''m'' ''j'' ''out'' (PyStr ''3'') None False
     = Inl (InvalidMaxWorkersError (PyStr ''3'')) \<and>
   MTBenchBranchEvaluator_init (host_cores 8) ''m'' ''j'' ''repo'' ''main'' ''out'' PyNone None
     False = Inl (InvalidMaxWorkersError PyNone) \<and>
   MTBenchEvaluator_init (host_cores 8) ''m'' ''j'' ''out'' (PyBool False) None False
     = Inl (InvalidMaxWorkersError (PyBool False)) \<and>
   MTBenchEvaluator_init (host_cores 8) ''m'' ''j'' ''out'' (PyInt 3) None False
     \<noteq> Inl (InvalidMaxWorkersError (PyInt 3))"
  using
    invalid_max_workers [of "host_cores 8" "''m''" "''j''" "''out''" "PyInt 0" None False
      "InvalidMaxWorkersError (PyInt 0)"]
    invalid_max_workers [of "host_cores 8" "''m''" "''j''" "''out''" "PyInt (- 1)" "Some 1" False
      "InvalidMaxWorkersError (PyInt (- 1))"]
    invalid_max_workers [of "host_cores 8" "''m''" "''j''" "''out''" "PyStr ''3''" None False
      "InvalidMaxWorkersError (PyStr ''3'')"]
    invalid_max_workers [of "host_cores 8" "''m''" "''j''" "''out''" PyNone None False
      "InvalidMaxWorkersError PyNone" "''repo''" "''main''"]
    invalid_max_workers [of "host_cores 8" "''m''" "''j''" "''out''" "PyBool False" None False
      "InvalidMaxWorkersError (PyBool False)"]
    invalid_max_workers [of "host_cores 8" "''m''" "''j''" "''out''" "PyInt 3" None False
      "InvalidMaxWorkersError (PyInt 3)"]
  by simp

text \<open>
  C8. With \<open>max_workers = "auto"\<close> and no \<open>serving_gpus\<close>, neither constructor raises, on any
  host: the usable CPU count can be any number from zero up.
\<close>

theorem auto_without_gpus_never_raises:
  "(\<exists>self. MTBenchEvaluator_init h mn jmn od (PyStr ''auto'') None merge = Inr self) \<and>
   (\<exists>self. MTBenchBranchEvaluator_init h mn jmn repo br od (PyStr ''auto'') None merge
             = Inr self) \<and>
   (\<forall>e. MTBenchEvaluator_init h mn jmn od (PyStr ''auto'') None merge \<noteq> Inl e) \<and>
   (\<forall>e. MTBenchBranchEvaluator_init h mn jmn repo br od (PyStr ''auto'') None merge \<noteq> Inl e)"
  unfolding branch_init_Inl_iff MTBenchEvaluator_init_def
  by (simp add: init_auto_no_gpus MTBenchBranchEvaluator_init_def)

theorem auto_without_gpus_never_raises_witness:
  "(\<exists>self. MTBenchEvaluator_init (host_cores 0) ''m'' ''j'' ''out'' (PyStr ''auto'') None False
            = Inr self) \<and>
   (\<exists>self. MTBenchEvaluator_init (host_cores 1) ''m'' ''j'' ''out'' (PyStr ''auto'') None False
            = Inr self) \<and>
   usable_cpu_count (host_cores 0) = 0 \<and> usable_cpu_count (host_cores 1) = 1"
  using auto_without_gpus_never_raises [of "host_cores 0" "''m''" "''j''" "''out''" False]
    auto_without_gpus_never_raises [of "host_cores 1" "''m''" "''j''" "''out''" False]
  by (simp add: usable_cpu_count_host_cores)

text \<open>
  C10. \<open>max_workers = True\<close> is accepted: \<open>True\<close> is an instance of \<open>int\<close> and is above zero,
  so both constructors succeed and store \<open>True\<close> itself.
\<close>

theorem true_is_accepted:
  "(\<exists>self. MTBenchEvaluator_init h mn jmn od (PyBool True) sg merge = Inr self \<and>
           max_workers self = PyBool True) \<and>
   (\<exists>self. MTBenchBranchEvaluator_init h mn jmn repo br od (PyBool True) sg merge = Inr self \<and>
           max_workers self = PyBool True) \<and>
   as_int (PyBool True) = Some 1"
  unfolding branch_init_Inr_iff MTBenchEvaluator_init_def
  by (simp add: init_explicit)

section \<open>The two phases\<close>

lemma invoke_fst: "fst (invoke c f st) = fst (f (world st))"
  by (simp add: invoke_def split: prod.split sum.split)

subsection \<open>Judgment\<close>

text \<open>
  \<open>MTBenchEvaluator.judge_answers\<close> is a bare \<open>return\<close> of the collaborator's call: what the
  collaborator returns comes back unmodified.
\<close>

lemma standard_judge_answers_pass_through:
  "fst (MTBenchEvaluator_judge_answers cs server_url st) =
     fst (generate_judgment cs
            \<lparr>gj_model_name = model_name (this st),
             gj_judge_model_name = judge_model_name (this st),
             gj_server_url = server_url,
             gj_branch = None,
             gj_max_workers = max_workers (this st),
             gj_output_dir = output_dir (this st),
             gj_data_dir = None,
             gj_bench_name = None,
             gj_merge_system_user_message = merge_system_user_message (this st)\<rparr>
            (world st))"
  by (simp add: MTBenchEvaluator_judge_answers_def Let_def invoke_fst)

text \<open>
  C2. The claim: \<open>MTBenchEvaluator.judge_answers\<close> returns what the judgment collaborator
  returns, unmodified, and that value is the 3-tuple
  \<open>(overall_score, qa_pairs, turn_scores)\<close>, as the method's docstring lists it. The
  collaborator returns four components: \<open>MTBenchBranchEvaluator.judge_answers\<close> unpacks the
  result of the same function into four names, the fourth being \<open>error_rate\<close>. Whenever it
  does, the method hands all four on, so its result is a tuple of four and not of three.
\<close>

theorem standard_judge_answers_returns_four_components:
  assumes "fst (generate_judgment cs
            \<lparr>gj_model_name = model_name (this st),
             gj_judge_model_name = judge_model_name (this st),
             gj_server_url = server_url,
             gj_branch = None,
             gj_max_workers = max_workers (this st),
             gj_output_dir = output_dir (this st),
             gj_data_dir = None,
             gj_bench_name = None,
             gj_merge_system_user_message = merge_system_user_message (this st)\<rparr>
            (world st)) = Inr [overall_score, qa_pairs, turn_scores, error_rate]"
  shows "fst (MTBenchEvaluator_judge_answers cs server_url st) =
           Inr [overall_score, qa_pairs, turn_scores, error_rate] \<and>
         map_sum id length (fst (MTBenchEvaluator_judge_answers cs server_url st)) = Inr 4 \<and>
         map_sum id length (fst (MTBenchEvaluator_judge_answers cs server_url st)) \<noteq> Inr 3"
  using assms by (simp add: standard_judge_answers_pass_through)

theorem standard_judge_answers_returns_four_components_witness:
  "fst (MTBenchEvaluator_judge_answers stub_collaborators ''http://localhost:8000/v1''
          standard_state) =
     Inr [''overall_score'', ''qa_pairs'', ''turn_scores'', ''error_rate''] \<and>
   map_sum id length
     (fst (MTBenchEvaluator_judge_answers stub_collaborators ''http://localhost:8000/v1''
             standard_state)) = Inr 4 \<and>
   fst (MTBenchBranchEvaluator_judge_answers stub_collaborators ''http://localhost:8000/v1''
          branch_state) = Inr [''qa_pairs'', ''error_rate'']"
proof -
  have four: "fst (generate_judgment stub_collaborators
            \<lparr>gj_model_name = model_name (this standard_state),
             gj_judge_model_name = judge_model_name (this standard_state),
             gj_server_url = ''http://localhost:8000/v1'',
             gj_branch = None,
             gj_max_workers = max_workers (this standard_state),
             gj_output_dir = output_dir (this standard_state),
             gj_data_dir = None,
             gj_bench_name = None,
             gj_merge_system_user_message = merge_system_user_message (this standard_state)\<rparr>
            (world standard_state)) =
          Inr [''overall_score'', ''qa_pairs'', ''turn_scores'', ''error_rate'']"
    by (simp add: stub_collaborators_def)
  have sibling: "fst (MTBenchBranchEvaluator_judge_answers stub_collaborators
          ''http://localhost:8000/v1'' branch_state) = Inr [''qa_pairs'', ''error_rate'']"
    by (simp add: MTBenchBranchEvaluator_judge_answers_def Let_def invoke_def
        stub_collaborators_def)
  from standard_judge_answers_returns_four_components [OF four] sibling
  show ?thesis by simp
qed

text \<open>
  C6. \<open>MTBenchBranchEvaluator.judge_answers\<close> returns a result exactly when the judgment
  collaborator, called with the branch-scoped arguments, returns four components; the
  result is then the pair of the second and the fourth, \<open>(qa_pairs, error_rate)\<close>, and
  \<open>overall_score\<close> and \<open>turn_scores\<close> are dropped.
\<close>

theorem branch_judge_answers_returns_pair:
  "fst (MTBenchBranchEvaluator_judge_answers cs server_url st) = Inr r \<longleftrightarrow>
     (\<exists>overall_score qa_pairs turn_scores error_rate.
        fst (generate_judgment cs
               \<lparr>gj_model_name = model_name (this st),
                gj_judge_model_name = judge_model_name (this st),
                gj_server_url = server_url,
                gj_branch = Some (branch (this st)),
                gj_max_workers = max_workers (this st),
                gj_output_dir = output_dir (this st),
                gj_data_dir = Some (output_dir (this st)),
                gj_bench_name = Some ''mt_bench_branch'',
                gj_merge_system_user_message = merge_system_user_message (this st)\<rparr>
               (world st)) =
          Inr [overall_score, qa_pairs, turn_scores, error_rate] \<and>
        r = [qa_pairs, error_rate])"
  by (auto simp: MTBenchBranchEvaluator_judge_answers_def Let_def invoke_def
      split: prod.splits sum.splits list.splits)

theorem branch_judge_answers_returns_pair_witness:
  "fst (MTBenchBranchEvaluator_judge_answers stub_collaborators ''http://localhost:8000/v1''
          branch_state) = Inr [''qa_pairs'', ''error_rate'']"
  using branch_judge_answers_returns_pair [of stub_collaborators "''http://localhost:8000/v1''"
      branch_state "[''qa_pairs'', ''error_rate'']"]
  by (simp add: stub_collaborators_def)

subsection \<open>Generation\<close>

text \<open>
  C7. \<open>MTBenchBranchEvaluator.gen_answers\<close> first calls branch materialization with
  \<open>(judge_model_name, branch, taxonomy_git_repo_path, output_dir)\<close>. Whenever that call
  returns, answer generation is called next, in the world materialization left, with
  \<open>branch\<close>, \<open>data_dir = output_dir\<close> and \<open>bench_name = "mt_bench_branch"\<close> bound: the method's
  outcome and final world are those of that generation call, and the trace shows
  materialization entered and returned before generation is entered. Whenever
  materialization raises, the method raises the same exception and generation is not
  called.
\<close>

theorem branch_gen_answers_materializes_first:
  fixes cs :: "('w, 'v) collaborators" and st :: "(branch_evaluator, 'w) pstate"
    and server_url :: string
  defines "b \<equiv> \<lparr>bg_judge_model_name = judge_model_name (this st),
                 bg_branch = branch (this st),
                 bg_taxonomy_git_repo_path = taxonomy_git_repo_path (this st),
                 bg_output_dir = output_dir (this st)\<rparr>"
  defines "a \<equiv> \<lparr>ga_model_name = model_name (this st),
                 ga_server_url = server_url,
                 ga_branch = Some (branch (this st)),
                 ga_output_dir = output_dir (this st),
                 ga_data_dir = Some (output_dir (this st)),
                 ga_max_workers = max_workers (this st),
                 ga_bench_name = Some ''mt_bench_branch''\<rparr>"
  defines "R \<equiv> MTBenchBranchEvaluator_gen_answers cs server_url st"
  shows
    "(\<forall>w1. generate cs b (world st) = (Inr (), w1) \<longrightarrow>
        fst R = fst (generate_answers cs a w1) \<and>
        world (snd R) = snd (generate_answers cs a w1) \<and>
        trace (snd R) =
          trace st @
          [Called (Generate b), Returned (Generate b), Called (Generate_answers a),
           (case fst (generate_answers cs a w1) of
              Inl e \<Rightarrow> Raised (Generate_answers a) e
            | Inr u \<Rightarrow> Returned (Generate_answers a))]) \<and>
     (\<forall>e w1. generate cs b (world st) = (Inl e, w1) \<longrightarrow>
        fst R = Inl e \<and>
        world (snd R) = w1 \<and>
        trace (snd R) = trace st @ [Called (Generate b), Raised (Generate b) e])"
  unfolding R_def a_def b_def
  by (auto simp: MTBenchBranchEvaluator_gen_answers_def Let_def invoke_def
      split: prod.splits sum.splits)

theorem branch_gen_answers_materializes_first_witness:
  "generate stub_collaborators
     \<lparr>bg_judge_model_name = ''judge'', bg_branch = ''main'',
      bg_taxonomy_git_repo_path = ''taxonomy'', bg_output_dir = ''eval_output''\<rparr>
     [] = (Inr (), [''generate'']) \<and>
   fst (MTBenchBranchEvaluator_gen_answers stub_collaborators
          ''http://localhost:8000/v1'' branch_state) = Inr () \<and>
   world (snd (MTBenchBranchEvaluator_gen_answers stub_collaborators
                 ''http://localhost:8000/v1'' branch_state)) =
     [''generate'', ''generate_answers''] \<and>
   trace (snd (MTBenchBranchEvaluator_gen_answers stub_collaborators
                 ''http://localhost:8000/v1'' branch_state)) =
     [Called (Generate \<lparr>bg_judge_model_name = ''judge'', bg_branch = ''main'',
                        bg_taxonomy_git_repo_path = ''taxonomy'',
                        bg_output_dir = ''eval_output''\<rparr>),
      Returned (Generate \<lparr>bg_judge_model_name = ''judge'', bg_branch = ''main'',
                          bg_taxonomy_git_repo_path = ''taxonomy'',
                          bg_output_dir = ''eval_output''\<rparr>),
      Called (Generate_answers \<lparr>ga_model_name = ''model'',
                ga_server_url = ''http://localhost:8000/v1'', ga_branch = Some ''main'',
                ga_output_dir = ''eval_output'', ga_data_dir = Some ''eval_output'',
                ga_max_workers = PyInt 4, ga_bench_name = Some ''mt_bench_branch''\<rparr>),
      Returned (Generate_answers \<lparr>ga_model_name = ''model'',
                ga_server_url = ''http://localhost:8000/v1'', ga_branch = Some ''main'',
                ga_output_dir = ''eval_output'', ga_data_dir = Some ''eval_output'',
                ga_max_workers = PyInt 4, ga_bench_name = Some ''mt_bench_branch''\<rparr>)]"
proof -
  let ?b = "\<lparr>bg_judge_model_name = judge_model_name (this branch_state),
             bg_branch = branch (this branch_state),
             bg_taxonomy_git_repo_path = taxonomy_git_repo_path (this branch_state),
             bg_output_dir = output_dir (this branch_state)\<rparr>"
  have returned: "generate stub_collaborators ?b (world branch_state) = (Inr (), [''generate''])"
    by (simp add: stub_collaborators_def branch_state_def)
  from branch_gen_answers_materializes_first [where cs = stub_collaborators
      and st = branch_state and server_url = "''http://localhost:8000/v1''"] returned
  show ?thesis
    by (simp add: stub_collaborators_def branch_state_def)
qed

subsection \<open>Frame\<close>

text \<open>
  C9. Neither \<open>gen_answers\<close> nor \<open>judge_answers\<close>, of either evaluator, changes the evaluator
  object: every field holds after the call what it held before, whether the call returns
  or raises.
\<close>

theorem methods_leave_config_unchanged:
  "this (snd (MTBenchEvaluator_gen_answers cs server_url st)) = this st \<and>
   this (snd (MTBenchEvaluator_judge_answers cs server_url st)) = this st \<and>
   this (snd (MTBenchBranchEvaluator_gen_answers cs' server_url bst)) = this bst \<and>
   this (snd (MTBenchBranchEvaluator_judge_answers cs' server_url bst)) = this bst"
  by (auto simp: MTBenchEvaluator_gen_answers_def MTBenchEvaluator_judge_answers_def
      MTBenchBranchEvaluator_gen_answers_def MTBenchBranchEvaluator_judge_answers_def
      Let_def invoke_def split: prod.splits sum.splits list.splits)

theorem methods_leave_config_unchanged_witness:
  "this (snd (MTBenchEvaluator_gen_answers stub_collaborators ''http://localhost:8000/v1''
                standard_state)) = this standard_state \<and>
   max_workers (this (snd (MTBenchBranchEvaluator_judge_answers stub_collaborators
                             ''http://localhost:8001/v1'' branch_state))) = PyInt 4"
  using methods_leave_config_unchanged [of stub_collaborators "''http://localhost:8000/v1''"
      standard_state stub_collaborators branch_state]
    methods_leave_config_unchanged [of stub_collaborators "''http://localhost:8001/v1''"
      standard_state stub_collaborators branch_state]
  by (simp add: branch_state_def)

end
